theory Spec2Isabelle
  imports Complex_Main
begin

section \<open>Numeric conventions\<close>

text \<open>
  The pipeline computes on IEEE doubles held in pandas series.  The embedding
  computes on the reals: rounding is not represented.  A missing point (NaN in
  the series) is \<open>None\<close>, and the one place where the risk code returns
  \<open>float('inf')\<close> on purpose is the constructor \<open>PInf\<close>.  The forecaster,
  which goes on computing with infinities and NaN, has its own extended numbers.
\<close>

type_synonym series = "real option list"

datatype fval = Fin real | PInf

definition dropna :: "series \<Rightarrow> real list" where
  "dropna s = List.map_filter (\<lambda>v. v) s"

text \<open>\<open>xs.iloc[k:]\<close>: a negative start counts from the end and is clipped at 0.\<close>

definition iloc_from :: "int \<Rightarrow> 'a list \<Rightarrow> 'a list" where
  "iloc_from k xs =
     (if k < 0 then drop (nat (max 0 (int (length xs) + k))) xs else drop (nat k) xs)"

definition mean :: "real list \<Rightarrow> real" where
  "mean xs = sum_list xs / real (length xs)"

text \<open>\<open>std(ddof=0)\<close>: the population standard deviation.\<close>

definition std0 :: "real list \<Rightarrow> real" where
  "std0 xs = sqrt (sum_list (map (\<lambda>x. (x - mean xs)\<^sup>2) xs) / real (length xs))"

fun list_max :: "real list \<Rightarrow> real" where
  "list_max [] = 0"
| "list_max (x # xs) = fold max xs x"

section \<open>risk_analysis.py\<close>

definition volatility_percent :: "series \<Rightarrow> nat \<Rightarrow> fval" where
  "volatility_percent s window =
     (let s' = dropna s in
      if s' = [] then Fin 0
      else
        let recent = iloc_from (- int window) s';
            m = mean recent
        in if m = 0 then PInf else Fin ((std0 recent / m) * 100))"

definition peak_to_current_drawdown :: "series \<Rightarrow> real" where
  "peak_to_current_drawdown s =
     (let s' = dropna s in
      if s' = [] then 0
      else
        let peak = list_max s';
            current = last s'
        in if peak = 0 then 0 else ((peak - current) / peak) * 100)"

text \<open>
  \<open>np.linalg.lstsq\<close> of \<open>y\<close> against the columns \<open>[x, 1]\<close> with
  \<open>x = 0, 1, ..., n - 1\<close>: the slope of the least-squares line.  With a single
  point the system is rank deficient and the minimum-norm solution has slope 0.
\<close>

definition lstsq_slope :: "real list \<Rightarrow> real" where
  "lstsq_slope ys =
     (let n = length ys;
          xs = map real [0..<n];
          sx = sum_list xs;
          sy = sum_list ys;
          sxx = sum_list (map (\<lambda>x. x * x) xs);
          sxy = sum_list (map (\<lambda>(x, y). x * y) (zip xs ys))
      in if n < 2 then 0
         else (real n * sxy - sx * sy) / (real n * sxx - sx * sx))"

definition momentum_score :: "series \<Rightarrow> nat \<Rightarrow> real" where
  "momentum_score s months =
     (let s' = dropna s in
      if length s' < 2 then 0
      else
        let window = min months (length s' - 1);
            recent = iloc_from (- (int window + 1)) s';
            m = lstsq_slope recent;
            mn = mean recent
        in if mn = 0 then 0 else (m / mn) * 100)"

text \<open>Python's \<open>min(vol, 100.0)\<close> where \<open>vol\<close> may be \<open>inf\<close>.\<close>

fun fmin :: "fval \<Rightarrow> real \<Rightarrow> real" where
  "fmin PInf c = c"
| "fmin (Fin v) c = min v c"

definition composite_risk_score :: "series \<Rightarrow> real" where
  "composite_risk_score s =
     (let vol = volatility_percent s 12;
          draw = peak_to_current_drawdown s;
          mom = momentum_score s 6;
          trend_pct = - min mom 0;
          vol_norm = fmin vol 100;
          draw_norm = min draw 100;
          trend_norm = min \<bar>trend_pct\<bar> 100;
          score = 0.4 * vol_norm + 0.3 * trend_norm + 0.3 * draw_norm
      in max 0 (min 100 score))"

definition classify_score :: "real \<Rightarrow> string" where
  "classify_score score =
     (if score < 30 then ''Low''
      else if score < 60 then ''Medium''
      else ''High'')"

text \<open>The order of the three labels by severity, used to state monotonicity.\<close>

definition severity :: "string \<Rightarrow> nat" where
  "severity l = (if l = ''Low'' then 0 else if l = ''Medium'' then 1 else 2)"

section \<open>forecasting.py\<close>

text \<open>
  The forecaster goes on computing when a number is infinite or not a number, so
  its values are the reals extended by the two infinities and NaN, with the
  comparison and arithmetic of IEEE doubles on them.  Rounding, overflow and the
  sign of zero are not represented.
\<close>

datatype xfloat = Num real | PosInf | NegInf | NaN

text \<open>\<open>a < b\<close>: false as soon as one side is NaN.\<close>

fun x_lt :: "xfloat \<Rightarrow> xfloat \<Rightarrow> bool" where
  "x_lt NaN b = False"
| "x_lt a NaN = False"
| "x_lt (Num a) (Num b) = (a < b)"
| "x_lt (Num a) PosInf = True"
| "x_lt (Num a) NegInf = False"
| "x_lt PosInf b = False"
| "x_lt NegInf NegInf = False"
| "x_lt NegInf b = True"

text \<open>\<open>a <= b\<close>, used to state the caps.\<close>

definition x_le :: "xfloat \<Rightarrow> xfloat \<Rightarrow> bool" where
  "x_le a b = (x_lt a b \<or> (a = b \<and> a \<noteq> NaN))"

text \<open>
  Python's \<open>max(a, b)\<close> and \<open>min(a, b)\<close> keep the first argument unless the
  second is strictly greater, respectively smaller.
\<close>

definition py_max :: "xfloat \<Rightarrow> xfloat \<Rightarrow> xfloat" where
  "py_max a b = (if x_lt a b then b else a)"

definition py_min :: "xfloat \<Rightarrow> xfloat \<Rightarrow> xfloat" where
  "py_min a b = (if x_lt b a then b else a)"

fun x_abs :: "xfloat \<Rightarrow> xfloat" where
  "x_abs (Num a) = Num \<bar>a\<bar>"
| "x_abs PosInf = PosInf"
| "x_abs NegInf = PosInf"
| "x_abs NaN = NaN"

fun x_neg :: "xfloat \<Rightarrow> xfloat" where
  "x_neg (Num a) = Num (- a)"
| "x_neg PosInf = NegInf"
| "x_neg NegInf = PosInf"
| "x_neg NaN = NaN"

fun x_add :: "xfloat \<Rightarrow> xfloat \<Rightarrow> xfloat" where
  "x_add NaN b = NaN"
| "x_add a NaN = NaN"
| "x_add (Num a) (Num b) = Num (a + b)"
| "x_add (Num a) b = b"
| "x_add a (Num b) = a"
| "x_add PosInf PosInf = PosInf"
| "x_add NegInf NegInf = NegInf"
| "x_add PosInf NegInf = NaN"
| "x_add NegInf PosInf = NaN"

definition x_sub :: "xfloat \<Rightarrow> xfloat \<Rightarrow> xfloat" where
  "x_sub a b = x_add a (x_neg b)"

text \<open>The sign of a value that is not NaN: -1, 0 or 1.\<close>

fun x_sign :: "xfloat \<Rightarrow> int" where
  "x_sign (Num a) = (if a < 0 then - 1 else if a = 0 then 0 else 1)"
| "x_sign PosInf = 1"
| "x_sign NegInf = - 1"
| "x_sign NaN = 0"

fun x_mul :: "xfloat \<Rightarrow> xfloat \<Rightarrow> xfloat" where
  "x_mul NaN b = NaN"
| "x_mul a NaN = NaN"
| "x_mul (Num a) (Num b) = Num (a * b)"
| "x_mul a b =
     (if x_sign a * x_sign b = 0 then NaN
      else if x_sign a * x_sign b > 0 then PosInf else NegInf)"

text \<open>A sum divided by a positive count.\<close>

fun x_div_count :: "xfloat \<Rightarrow> nat \<Rightarrow> xfloat" where
  "x_div_count (Num a) n = Num (a / real n)"
| "x_div_count a n = a"

definition x_mean :: "xfloat list \<Rightarrow> xfloat" where
  "x_mean xs = x_div_count (foldl x_add (Num 0) xs) (length xs)"

text \<open>A point of the series as a float: a missing point is NaN.\<close>

fun cell :: "real option \<Rightarrow> xfloat" where
  "cell None = NaN"
| "cell (Some v) = Num v"

fun finite_part :: "xfloat list \<Rightarrow> real list option" where
  "finite_part [] = Some []"
| "finite_part (Num a # xs) = map_option (\<lambda>ys. a # ys) (finite_part xs)"
| "finite_part (a # xs) = None"

text \<open>
  \<open>ValueError\<close> is the one exception the core raises: on an empty series in the
  forecaster, on a missing column in the preparation.
\<close>

datatype failure = ValueError

text \<open>
  The fit of statsmodels' \<open>ExponentialSmoothing\<close> is a library call and enters as
  a parameter: from the series and the seasonal period (\<open>None\<close> for the
  trend-only model) it gives the raw forecasts for a number of steps and the
  in-sample fitted values.
\<close>

record ets_fit =
  forecast :: "nat \<Rightarrow> xfloat list"
  fittedvalues :: "xfloat list"

type_synonym ets_model = "series \<Rightarrow> nat option \<Rightarrow> ets_fit"

record forecast_result =
  predictions :: "xfloat list"
  lower :: "xfloat list"
  upper :: "xfloat list"
  fitted :: "xfloat list"

text \<open>
  \<open>np.std(actual - fitted_values, ddof=0)\<close>: NaN as soon as a residual is not a
  finite number.
\<close>

definition residual_std :: "xfloat list \<Rightarrow> xfloat list \<Rightarrow> xfloat" where
  "residual_std fitted_values actual =
     (case finite_part (map (\<lambda>(a, f). x_sub a f) (zip actual fitted_values)) of
        None \<Rightarrow> NaN
      | Some res \<Rightarrow> Num (std0 res))"

text \<open>
  \<open>Series.pct_change()\<close> on a window.  Whether missing points are first filled
  with the last point before them is the default of the installed pandas (filled
  before version 3, not filled from it on) and is the parameter \<open>pad\<close>.  The
  first entry is NaN; a later one is \<open>b / a - 1\<close>: NaN for \<open>0 / 0\<close> or a
  missing operand, infinite for a value other than zero over 0.
\<close>

fun ffill :: "real option \<Rightarrow> series \<Rightarrow> series" where
  "ffill seen [] = []"
| "ffill seen (None # xs) = seen # ffill seen xs"
| "ffill seen (Some v # xs) = Some v # ffill (Some v) xs"

fun pct_cell :: "real option \<Rightarrow> real option \<Rightarrow> xfloat" where
  "pct_cell (Some a) (Some b) =
     (if a = 0 then (if b = 0 then NaN else if b > 0 then PosInf else NegInf)
      else Num (b / a - 1))"
| "pct_cell a b = NaN"

fun pct_steps :: "series \<Rightarrow> xfloat list" where
  "pct_steps (a # b # xs) = pct_cell a b # pct_steps (b # xs)"
| "pct_steps xs = []"

definition pct_change :: "bool \<Rightarrow> series \<Rightarrow> xfloat list" where
  "pct_change pad xs =
     (let data = (if pad then ffill None xs else xs)
      in if data = [] then [] else NaN # pct_steps data)"

text \<open>Lines 71 to 76: the mean percent change over the last three points.\<close>

definition recent_pct_of :: "bool \<Rightarrow> series \<Rightarrow> xfloat" where
  "recent_pct_of pad s =
     (if 3 \<le> length s then
        let recent = iloc_from (- 3) s;
            pct = filter (\<lambda>c. c \<noteq> NaN) (pct_change pad recent)
        in if pct \<noteq> [] then x_mean pct else Num 0
      else Num 0)"

text \<open>
  The loop of lines 83 to 97 over the raw forecast, its lower and its upper bound;
  \<open>prev\<close> is the loop's state.
\<close>

fun safety_loop ::
  "xfloat \<Rightarrow> real \<Rightarrow> xfloat \<Rightarrow> (xfloat \<times> xfloat \<times> xfloat) list
     \<Rightarrow> (xfloat \<times> xfloat \<times> xfloat) list"
where
  "safety_loop recent_pct mgm prev [] = []"
| "safety_loop recent_pct mgm prev ((p, l, u) # rest) =
     (let allowed = py_max (x_mul (x_abs recent_pct) (Num mgm)) (Num 0.01);
          max_up = x_mul prev (x_add (Num 1) allowed);
          min_down = x_mul prev (x_sub (Num 1) (x_mul allowed (Num mgm)));
          p_adj = (if x_lt recent_pct (Num 0) \<and> x_lt prev p then py_min p max_up
                   else py_max (py_min p max_up) min_down)
      in (p_adj, py_max min_down l, py_min max_up u)
           # safety_loop recent_pct mgm p_adj rest)"

text \<open>Lines 66 and 67: a bound that is NaN is replaced by the prediction.\<close>

definition unless_nan :: "xfloat \<Rightarrow> xfloat \<Rightarrow> xfloat" where
  "unless_nan x p = (if x = NaN then p else x)"

definition ets_recursive_forecast ::
  "ets_model \<Rightarrow> bool \<Rightarrow> series \<Rightarrow> nat \<Rightarrow> nat \<Rightarrow> bool \<Rightarrow> real \<Rightarrow> failure + forecast_result"
where
  "ets_recursive_forecast model pad series steps seasonal_periods use_seasonal
       max_growth_multiplier =
     (if series = [] then Inl ValueError
      else
        let s = series;
            seasonal = (if use_seasonal \<and> 2 * seasonal_periods \<le> length s
                        then Some seasonal_periods else None)
        in if length (dropna s) < 3 then
             let lst = cell (last s)
             in Inr \<lparr>predictions = replicate steps lst, lower = replicate steps lst,
                     upper = replicate steps lst, fitted = map cell s\<rparr>
           else
             let fit = model s seasonal;
                 preds_raw = forecast fit steps;
                 resid_std = residual_std (fittedvalues fit) (map cell s);
                 z = Num 1.96;
                 raw = map (\<lambda>p. (p, unless_nan (x_sub p (x_mul z resid_std)) p,
                                     unless_nan (x_add p (x_mul z resid_std)) p)) preds_raw;
                 recent_pct = recent_pct_of pad s;
                 adj = safety_loop recent_pct max_growth_multiplier (cell (last s)) raw
             in Inr \<lparr>predictions = map (\<lambda>(p, l, u). p) adj,
                     lower = map (\<lambda>(p, l, u). l) adj,
                     upper = map (\<lambda>(p, l, u). u) adj,
                     fitted = fittedvalues fit\<rparr>)"

text \<open>
  The caps as the specification words them, for one step on finite numbers:
  \<open>stated_caps\<close> is the property with both caps on every step that is not a
  rebound, \<open>design_caps\<close> asks for the upper cap on such a step only when
  \<open>prev\<close> is not negative.
\<close>

definition stated_caps :: "real \<Rightarrow> real \<Rightarrow> real \<Rightarrow> real \<Rightarrow> bool" where
  "stated_caps recentPct prev raw adjusted =
     (let allowed = max (\<bar>recentPct\<bar> * 3) 0.01
      in if recentPct < 0 \<and> raw > prev then adjusted \<le> prev * (1 + allowed)
         else prev * (1 - allowed * 3) \<le> adjusted \<and> adjusted \<le> prev * (1 + allowed))"

definition design_caps :: "real \<Rightarrow> real \<Rightarrow> real \<Rightarrow> real \<Rightarrow> bool" where
  "design_caps recentPct prev raw adjusted =
     (let allowed = max (\<bar>recentPct\<bar> * 3) 0.01
      in if recentPct < 0 \<and> raw > prev then adjusted \<le> prev * (1 + allowed)
         else prev * (1 - allowed * 3) \<le> adjusted
              \<and> (0 \<le> prev \<longrightarrow> adjusted \<le> prev * (1 + allowed)))"

text \<open>The value each step is measured against: the last actual, then the previous adjusted value.\<close>

definition prev_at :: "real \<Rightarrow> real list \<Rightarrow> nat \<Rightarrow> real" where
  "prev_at last_actual adjusted i = (if i = 0 then last_actual else adjusted ! (i - 1))"

text \<open>
  What the loop computes for the predictions when the recent percent change,
  \<open>prev\<close> and the raw forecasts are all finite numbers.
\<close>

fun adjusted_finite :: "real \<Rightarrow> real \<Rightarrow> real list \<Rightarrow> real list" where
  "adjusted_finite rp prev [] = []"
| "adjusted_finite rp prev (p # ps) =
     (let allowed = max (\<bar>rp\<bar> * 3) 0.01;
          p_adj = (if rp < 0 \<and> p > prev then min p (prev * (1 + allowed))
                   else max (min p (prev * (1 + allowed))) (prev * (1 - allowed * 3)))
      in p_adj # adjusted_finite rp p_adj ps)"

text \<open>
  A sample fit on which the forecaster can be run on concrete series: it
  continues the last observed difference and reproduces the history exactly.
\<close>

definition drift_model :: ets_model where
  "drift_model s seasonal =
     (let vals = dropna s
      in \<lparr>forecast =
            (\<lambda>n. map (\<lambda>k. Num (last vals + real (k + 1) * (last vals - last (butlast vals))))
                    [0..<n]),
          fittedvalues = map cell s\<rparr>)"

section \<open>consistency_validator.py\<close>

text \<open>
  The payload dictionary with the keys the pipeline uses, each optional as in a
  Python \<open>dict\<close>; \<open>predictions\<close> absent reads as the empty list.  The
  volatility may be the infinity that \<open>volatility_percent\<close> returns.
\<close>

record payload =
  pl_predictions :: "real list"
  pl_last_actual :: "real option"
  pl_volatility_percent :: "fval option"
  pl_composite_score :: "real option"
  pl_risk_label :: "string option"
  pl_recent_short_pct :: "real option"
  pl_recent_long_pct :: "real option"
  pl_drawdown :: "real option"
  pl_drawdown_percent :: "real option"
  pl_stability_index :: "real option"
  pl_insight :: "string option"
  pl_forecast_direction_pct :: "real option"
  pl_consistency_explanation :: "string option"

text \<open>The dictionary with no key.\<close>

definition empty_payload :: payload where
  "empty_payload =
     \<lparr>pl_predictions = [], pl_last_actual = None, pl_volatility_percent = None,
      pl_composite_score = None, pl_risk_label = None, pl_recent_short_pct = None,
      pl_recent_long_pct = None, pl_drawdown = None, pl_drawdown_percent = None,
      pl_stability_index = None, pl_insight = None, pl_forecast_direction_pct = None,
      pl_consistency_explanation = None\<rparr>"

text \<open>Lines 19 to 23: the direction and its percent, when there is something to compare.\<close>

definition forecast_direction :: "payload \<Rightarrow> (string \<times> real) option" where
  "forecast_direction payload =
     (let preds = pl_predictions payload in
      case pl_last_actual payload of
        None \<Rightarrow> None
      | Some lst \<Rightarrow>
          if preds = [] then None
          else
            let avg = sum_list preds / real (length preds);
                pct = (if lst \<noteq> 0 then (avg - lst) / lst else 0)
            in Some (if pct > 0 then ''up'' else if pct < 0 then ''down'' else ''flat'', pct))"

fun fgt :: "fval \<Rightarrow> real \<Rightarrow> bool" where
  "fgt PInf c = True"
| "fgt (Fin v) c = (v > c)"

text \<open>The two sentences; the dash of the first is its three UTF-8 bytes.\<close>

definition instability_sentence :: string where
  "instability_sentence =
     ''Forecast projects growth but composite risk is High '' @ [CHR 0xE2, CHR 0x80, CHR 0x94]
       @ '' investigate instability in revenue drivers.''"

definition volatility_sentence :: string where
  "volatility_sentence =
     ''High volatility (>40%) reduces confidence in upward forecast; results may be sensitive to recent noise.''"

definition explanation_of :: "payload \<Rightarrow> string list" where
  "explanation_of payload =
     (let risk = pl_risk_label payload;
          volatility = pl_volatility_percent payload;
          direction = map_option fst (forecast_direction payload)
      in (if direction = Some ''up'' \<and> risk = Some ''High'' then [instability_sentence] else [])
         @ (if (case volatility of None \<Rightarrow> False | Some v \<Rightarrow> fgt v 40) \<and> direction = Some ''up''
            then [volatility_sentence] else []))"

text \<open>\<open>sep.join(parts)\<close>.\<close>

fun join :: "string \<Rightarrow> string list \<Rightarrow> string" where
  "join sep [] = []"
| "join sep [x] = x"
| "join sep (x # y # ys) = x @ sep @ join sep (y # ys)"

definition validate_and_adjust :: "payload \<Rightarrow> payload" where
  "validate_and_adjust payload =
     (let out = payload;
          out = (case forecast_direction payload of
                   None \<Rightarrow> out
                 | Some (direction, pct) \<Rightarrow> out\<lparr>pl_forecast_direction_pct := Some pct\<rparr>);
          explanation = explanation_of payload
      in if explanation \<noteq> [] then out\<lparr>pl_consistency_explanation := Some (join '' '' explanation)\<rparr>
         else out)"

text \<open>The two contradiction rules as the specification words them.\<close>

definition rule_a :: "payload \<Rightarrow> bool" where
  "rule_a payload =
     (map_option fst (forecast_direction payload) = Some ''up'' \<and> pl_risk_label payload = Some ''High'')"

definition rule_b :: "payload \<Rightarrow> bool" where
  "rule_b payload =
     ((case pl_volatility_percent payload of None \<Rightarrow> False | Some v \<Rightarrow> fgt v 40)
      \<and> map_option fst (forecast_direction payload) = Some ''up'')"

section \<open>insights_engine.py\<close>

text \<open>
  The three sections of the narrative are kept as data, each constructor one
  template of the source with the numbers it fills in; the rendering of those
  numbers into text is not part of the model.
\<close>

datatype trend_summary =
  TrendDecline real | TrendGrowth real | TrendNeutral real | TrendInsufficient

datatype risk_assessment =
  RiskAssessed string "real option" "(fval \<times> real) option" | RiskInsufficient

datatype recommendation =
  Crisis | CautiousMonitoring real | VolatileGrowth | ModerateObservability
  | ControlledDecline real | GrowthInvestment

record insight =
  trend_section :: trend_summary
  risk_section :: risk_assessment
  recommendation_section :: recommendation

text \<open>Python's truth value of an optional float: present and not zero.\<close>

fun truthy :: "real option \<Rightarrow> bool" where
  "truthy None = False"
| "truthy (Some v) = (v \<noteq> 0)"

text \<open>\<open>x and x < c\<close> and \<open>x and x > c\<close> on an optional float.\<close>

fun and_lt :: "real option \<Rightarrow> real \<Rightarrow> bool" where
  "and_lt None c = False"
| "and_lt (Some v) c = (truthy (Some v) \<and> v < c)"

fun and_gt :: "real option \<Rightarrow> real \<Rightarrow> bool" where
  "and_gt None c = False"
| "and_gt (Some v) c = (truthy (Some v) \<and> v > c)"

definition avg_forecast_of :: "payload \<Rightarrow> real option" where
  "avg_forecast_of payload =
     (let preds = pl_predictions payload
      in if preds \<noteq> [] then Some (sum_list preds / real (length preds)) else None)"

text \<open>Lines 72 to 74.\<close>

definition forecast_pct_change :: "payload \<Rightarrow> real" where
  "forecast_pct_change payload =
     (case (avg_forecast_of payload, pl_last_actual payload) of
        (Some avg, Some la) \<Rightarrow> if avg \<noteq> 0 \<and> la \<noteq> 0 then (avg - la) / la * 100 else 0
      | _ \<Rightarrow> 0)"

definition build_insight :: "payload \<Rightarrow> insight" where
  "build_insight payload =
     (let last_actual = pl_last_actual payload;
          volatility = pl_volatility_percent payload;
          score = pl_composite_score payload;
          risk = pl_risk_label payload;
          recent_short = pl_recent_short_pct payload;
          recent_long = pl_recent_long_pct payload;
          drawdown = (case pl_drawdown payload of
                        None \<Rightarrow> pl_drawdown_percent payload
                      | Some d \<Rightarrow> Some d);
          avg_forecast = avg_forecast_of payload;
          trend =
            (case (recent_short, recent_long, avg_forecast) of
               (Some rs, Some rl, Some avg) \<Rightarrow>
                 let forecast_pct =
                       (case last_actual of
                          Some la \<Rightarrow> if la \<noteq> 0 then (avg - la) / la * 100 else 0
                        | None \<Rightarrow> 0)
                 in if rs < - 0.15 then TrendDecline forecast_pct
                    else if rs > 0.10 then TrendGrowth forecast_pct
                    else TrendNeutral forecast_pct
             | _ \<Rightarrow> TrendInsufficient);
          assess =
            (case risk of
               Some label \<Rightarrow>
                 RiskAssessed label score
                   (case (volatility, drawdown) of
                      (Some v, Some d) \<Rightarrow> Some (v, d)
                    | _ \<Rightarrow> None)
             | None \<Rightarrow> RiskInsufficient);
          rec =
            (if risk = Some ''High'' then Crisis
             else if risk = Some ''Medium'' then
               (if and_lt recent_short (- 0.10) then
                  CautiousMonitoring (forecast_pct_change payload)
                else if and_gt recent_short 0.10 then VolatileGrowth
                else ModerateObservability)
             else if risk = Some ''Low'' \<and> and_lt recent_short (- 0.10) then
               ControlledDecline (forecast_pct_change payload)
             else GrowthInvestment)
      in \<lparr>trend_section = trend, risk_section = assess, recommendation_section = rec\<rparr>)"

section \<open>preprocessing.py\<close>

text \<open>
  A timestamp is kept to its calendar date; parsing text into dates is pandas'
  work and not modelled.  A frame is its column names and, row by row, the cells
  of the date column and of the value column.
\<close>

datatype date = Date (year: int) (month: nat) (day: nat)

definition leap_year :: "int \<Rightarrow> bool" where
  "leap_year y = ((y mod 4 = 0 \<and> y mod 100 \<noteq> 0) \<or> y mod 400 = 0)"

definition days_in_month :: "int \<Rightarrow> nat \<Rightarrow> nat" where
  "days_in_month y m =
     (if m = 2 then (if leap_year y then 29 else 28)
      else if m = 4 \<or> m = 6 \<or> m = 9 \<or> m = 11 then 30
      else 31)"

text \<open>\<open>dt.to_period('M').dt.to_timestamp('M')\<close>: the last day of the date's month.\<close>

definition month_end :: "date \<Rightarrow> date" where
  "month_end d = Date (year d) (month d) (days_in_month (year d) (month d))"

text \<open>The chronological position of a date, by which the index is sorted.\<close>

definition date_key :: "date \<Rightarrow> int" where
  "date_key d = (year d * 12 + int (month d)) * 32 + int (day d)"

record frame =
  columns :: "string list"
  rows :: "(date \<times> real) list"

definition prepare_series :: "frame \<Rightarrow> string \<Rightarrow> string \<Rightarrow> failure + (date \<times> real) list" where
  "prepare_series df date_col value_col =
     (if date_col \<notin> set (columns df) \<or> value_col \<notin> set (columns df) then Inl ValueError
      else
        let stamped = map (\<lambda>(d, v). (month_end d, v)) (rows df);
            keys = sort_key date_key (remdups (map fst stamped));
            grouped = map (\<lambda>k. (k, sum_list (map snd (filter (\<lambda>(d, v). d = k) stamped)))) keys;
            series = sort_key (\<lambda>(d, v). date_key d) grouped
        in Inr series)"

text \<open>
  A normalized monthly series: unique periods, each a month-end date, in
  ascending order; and its tabular form with the pipeline's column names.
\<close>

definition normalized :: "(date \<times> real) list \<Rightarrow> bool" where
  "normalized xs =
     (distinct (map fst xs)
      \<and> list_all (\<lambda>(d, v). month_end d = d) xs
      \<and> sorted (map (\<lambda>(d, v). date_key d) xs))"

definition to_frame :: "(date \<times> real) list \<Rightarrow> frame" where
  "to_frame xs = \<lparr>columns = [''date'', ''revenue''], rows = xs\<rparr>"

section \<open>Helper facts\<close>

lemma dropna_Nil [simp]: "dropna [] = []"
  by (simp add: dropna_def map_filter_simps)

lemma dropna_Cons [simp]:
  "dropna (v # s) = (case v of None \<Rightarrow> dropna s | Some x \<Rightarrow> x # dropna s)"
  by (simp add: dropna_def map_filter_simps split: option.splits)

lemma iloc_from_window_nonempty:
  "xs \<noteq> [] \<Longrightarrow> iloc_from (- int w) xs \<noteq> []"
  by (cases xs) (auto simp: iloc_from_def)

lemma set_iloc_from: "set (iloc_from k xs) \<subseteq> set xs"
  by (auto simp: iloc_from_def dest: in_set_dropD)

lemma mean_const: "xs \<noteq> [] \<Longrightarrow> \<forall>x\<in>set xs. x = c \<Longrightarrow> mean xs = c"
proof -
  assume ne: "xs \<noteq> []" and c: "\<forall>x\<in>set xs. x = c"
  have "sum_list xs = real (length xs) * c"
    using c by (induction xs) (auto simp: algebra_simps)
  with ne show ?thesis by (simp add: mean_def)
qed

lemma list_max_Max:
  assumes "xs \<noteq> []"
  shows "list_max xs = Max (set xs)"
proof (cases xs)
  case Nil
  with assms show ?thesis by simp
next
  case (Cons a list)
  have "Max (set (a # list)) = fold max list a" by (rule Max.set_eq_fold)
  with Cons show ?thesis by simp
qed

lemma sorted_last_Max: "sorted xs \<Longrightarrow> xs \<noteq> [] \<Longrightarrow> Max (set xs) = last (xs::real list)"
  by (induction xs) (auto simp: max_def)

lemma safety_step_caps:
  fixes rp prev p :: real
  defines "allowed \<equiv> max (\<bar>rp\<bar> * 3) 0.01"
  defines "max_up \<equiv> prev * (1 + allowed)"
  defines "min_down \<equiv> prev * (1 - allowed * 3)"
  shows "design_caps rp prev p
           (if rp < 0 \<and> p > prev then min p max_up else max (min p max_up) min_down)"
proof -
  have pos: "0 < allowed" by (simp add: allowed_def max_def)
  have ord: "0 \<le> prev \<Longrightarrow> min_down \<le> max_up"
  proof -
    assume "0 \<le> prev"
    moreover have "1 - allowed * 3 \<le> 1 + allowed" using pos by simp
    ultimately show ?thesis unfolding min_down_def max_up_def by (rule mult_left_mono[rotated])
  qed
  show ?thesis
    unfolding design_caps_def Let_def allowed_def[symmetric] max_up_def[symmetric] min_down_def[symmetric]
    using ord by auto
qed

lemma length_adjusted_finite: "length (adjusted_finite rp prev raw) = length raw"
  by (induction raw arbitrary: prev) (auto simp: Let_def)

lemma adjusted_finite_caps:
  "i < length raw \<Longrightarrow>
   design_caps rp (prev_at prev (adjusted_finite rp prev raw) i)
     (raw ! i) (adjusted_finite rp prev raw ! i)"
proof (induction raw arbitrary: prev i)
  case Nil
  then show ?case by simp
next
  case (Cons p raw)
  define a where "a = max (\<bar>rp\<bar> * 3) 0.01"
  define p_adj where
    "p_adj = (if rp < 0 \<and> p > prev then min p (prev * (1 + a))
              else max (min p (prev * (1 + a))) (prev * (1 - a * 3)))"
  have unfold: "adjusted_finite rp prev (p # raw) = p_adj # adjusted_finite rp p_adj raw"
    by (simp add: Let_def p_adj_def a_def)
  show ?case
  proof (cases i)
    case 0
    have "design_caps rp prev p p_adj"
      unfolding p_adj_def a_def by (rule safety_step_caps)
    with 0 show ?thesis unfolding unfold by (simp add: prev_at_def)
  next
    case (Suc j)
    with Cons.prems have j: "j < length raw" by simp
    have "design_caps rp (prev_at p_adj (adjusted_finite rp p_adj raw) j)
            (raw ! j) (adjusted_finite rp p_adj raw ! j)"
      using j by (rule Cons.IH)
    moreover have "prev_at prev (p_adj # adjusted_finite rp p_adj raw) (Suc j)
        = prev_at p_adj (adjusted_finite rp p_adj raw) j"
      by (cases j) (simp_all add: prev_at_def)
    ultimately show ?thesis unfolding unfold by (simp add: Suc)
  qed
qed

lemma safety_loop_finite:
  "map (\<lambda>(p, l, u). p) (safety_loop (Num rp) 3 (Num prev) (map (\<lambda>p. (Num p, L p, U p)) raw))
     = map Num (adjusted_finite rp prev raw)"
proof (induction raw arbitrary: prev)
  case Nil
  then show ?case by simp
next
  case (Cons p raw)
  define a where "a = max (\<bar>rp\<bar> * 3) 0.01"
  define p_adj where
    "p_adj = (if rp < 0 \<and> p > prev then min p (prev * (1 + a))
              else max (min p (prev * (1 + a))) (prev * (1 - a * 3)))"
  have al: "py_max (x_mul (x_abs (Num rp)) (Num 3)) (Num 0.01) = Num a"
    by (simp add: py_max_def a_def max_def)
  have up: "x_mul (Num prev) (x_add (Num 1) (Num a)) = Num (prev * (1 + a))" by simp
  have dn: "x_mul (Num prev) (x_sub (Num 1) (x_mul (Num a) (Num 3))) = Num (prev * (1 - a * 3))"
    by (simp add: x_sub_def)
  have st: "(if x_lt (Num rp) (Num 0) \<and> x_lt (Num prev) (Num p)
             then py_min (Num p) (Num (prev * (1 + a)))
             else py_max (py_min (Num p) (Num (prev * (1 + a)))) (Num (prev * (1 - a * 3))))
            = Num p_adj"
    by (simp add: p_adj_def py_max_def py_min_def min_def max_def)
  have "safety_loop (Num rp) 3 (Num prev) (map (\<lambda>p. (Num p, L p, U p)) (p # raw)) =
        (Num p_adj, py_max (Num (prev * (1 - a * 3))) (L p), py_min (Num (prev * (1 + a))) (U p))
          # safety_loop (Num rp) 3 (Num p_adj) (map (\<lambda>p. (Num p, L p, U p)) raw)"
    by (simp only: list.map safety_loop.simps Let_def al up dn st)
  moreover have "adjusted_finite rp prev (p # raw) = p_adj # adjusted_finite rp p_adj raw"
    by (simp add: Let_def p_adj_def a_def)
  ultimately show ?case using Cons.IH [of p_adj] by simp
qed

lemma recent_pct_of_last_three:
  assumes "a \<noteq> 0" and "b \<noteq> 0"
  shows "recent_pct_of pad (pre @ [Some a, Some b, Some c])
           = Num (((b / a - 1) + (c / b - 1)) / 2)"
proof -
  have "iloc_from (- 3) (pre @ [Some a, Some b, Some c]) = [Some a, Some b, Some c]"
    by (simp add: iloc_from_def)
  then show ?thesis
    using assms by (simp add: recent_pct_of_def pct_change_def x_mean_def Let_def)
qed

lemma degenerate_general:
  "s \<noteq> [] \<Longrightarrow> length (dropna s) < 3 \<Longrightarrow>
   ets_recursive_forecast model pad s h sp us mgm =
     Inr \<lparr>predictions = replicate h (cell (last s)), lower = replicate h (cell (last s)),
          upper = replicate h (cell (last s)), fitted = map cell s\<rparr>"
  by (simp add: ets_recursive_forecast_def Let_def)

lemma explanation_nonempty_iff: "explanation_of p \<noteq> [] \<longleftrightarrow> rule_a p \<or> rule_b p"
  by (auto simp: explanation_of_def rule_a_def rule_b_def Let_def split: option.splits)

lemma explanation_of_rules:
  "explanation_of p =
     (if rule_a p then [instability_sentence] else [])
     @ (if rule_b p then [volatility_sentence] else [])"
  by (auto simp: explanation_of_def rule_a_def rule_b_def Let_def split: option.splits)

lemma validate_explanation:
  "pl_consistency_explanation (validate_and_adjust p) =
     (if explanation_of p \<noteq> [] then Some (join '' '' (explanation_of p))
      else pl_consistency_explanation p)"
  by (simp add: validate_and_adjust_def Let_def split: option.splits prod.splits)

lemma recommendation_section_eq:
  "recommendation_section (build_insight p) =
     (if pl_risk_label p = Some ''High'' then Crisis
      else if pl_risk_label p = Some ''Medium'' then
        (if and_lt (pl_recent_short_pct p) (- 0.10) then CautiousMonitoring (forecast_pct_change p)
         else if and_gt (pl_recent_short_pct p) 0.10 then VolatileGrowth
         else ModerateObservability)
      else if pl_risk_label p = Some ''Low'' \<and> and_lt (pl_recent_short_pct p) (- 0.10) then
        ControlledDecline (forecast_pct_change p)
      else GrowthInvestment)"
  by (simp add: build_insight_def Let_def)

lemma trend_section_neutral:
  "pl_recent_short_pct p = Some r \<Longrightarrow> pl_recent_long_pct p \<noteq> None \<Longrightarrow>
   pl_predictions p \<noteq> [] \<Longrightarrow> - 0.15 \<le> r \<Longrightarrow> r \<le> 0.10 \<Longrightarrow>
   \<exists>c. trend_section (build_insight p) = TrendNeutral c"
  by (auto simp: build_insight_def Let_def avg_forecast_of_def split: option.splits)

lemma filter_key_distinct:
  "distinct (map fst xs) \<Longrightarrow> (d, v) \<in> set xs \<Longrightarrow> filter (\<lambda>(d', v'). d' = d) xs = [(d, v)]"
proof (induction xs)
  case Nil
  then show ?case by simp
next
  case (Cons x xs)
  obtain d0 v0 where x: "x = (d0, v0)" by (cases x)
  show ?case
  proof (cases "d0 = d")
    case True
    with Cons.prems x have "v0 = v" by (auto simp: image_iff)
    moreover have "filter (\<lambda>(d', v'). d' = d) xs = []"
      using Cons.prems x True by (auto simp: filter_empty_conv image_iff)
    ultimately show ?thesis using x True by simp
  next
    case False
    with Cons x show ?thesis by auto
  qed
qed

lemma group_sum_distinct:
  assumes "distinct (map fst xs)"
  shows "map (\<lambda>k. (k, sum_list (map snd (filter (\<lambda>(d, v). d = k) xs)))) (map fst xs) = (xs :: (date \<times> real) list)"
proof -
  have "\<forall>x\<in>set xs. (fst x, sum_list (map snd (filter (\<lambda>(d, v). d = fst x) xs))) = x"
  proof
    fix x assume "x \<in> set xs"
    then have "filter (\<lambda>(d', v'). d' = fst x) xs = [(fst x, snd x)]"
      using assms filter_key_distinct [of xs "fst x" "snd x"] by simp
    then show "(fst x, sum_list (map snd (filter (\<lambda>(d, v). d = fst x) xs))) = x" by simp
  qed
  then show ?thesis by (simp add: map_idI comp_def)
qed

lemma month_end_fixed: "list_all (\<lambda>(d, v). month_end d = d) xs \<Longrightarrow> map (\<lambda>(d, v). (month_end d, v)) xs = xs"
  by (induction xs) auto

section \<open>Risk classification\<close>

text \<open>
  C5.  \<open>classify_score\<close> returns Low exactly for scores below 30, Medium exactly
  for scores from 30 (inclusive) up to 60 (exclusive) and High exactly for scores
  from 60 on; the four boundary values 29.999, 30, 59.999 and 60 land in Low,
  Medium, Medium and High; and a larger score never gets a less severe label.
\<close>

theorem classify_score_bands:
  "(classify_score x = ''Low'' \<longleftrightarrow> x < 30)
   \<and> (classify_score x = ''Medium'' \<longleftrightarrow> 30 \<le> x \<and> x < 60)
   \<and> (classify_score x = ''High'' \<longleftrightarrow> 60 \<le> x)
   \<and> classify_score 29.999 = ''Low''
   \<and> classify_score 30 = ''Medium''
   \<and> classify_score 59.999 = ''Medium''
   \<and> classify_score 60 = ''High''
   \<and> (x \<le> y \<longrightarrow> severity (classify_score x) \<le> severity (classify_score y))"
  by (simp add: classify_score_def severity_def)

theorem classify_score_bands_witness:
  "(29.5::real) \<le> 61
   \<and> classify_score 29.5 = ''Low''
   \<and> classify_score 61 = ''High''
   \<and> severity (classify_score 29.5) \<le> severity (classify_score 61)
   \<and> severity (classify_score 29.5) = 0 \<and> severity (classify_score 61) = 2"
  using classify_score_bands [of "29.5" "61"]
  by (simp add: classify_score_def severity_def)

section \<open>Sentinels of the ratio computations\<close>

text \<open>
  C7.  \<open>volatility_percent\<close> returns 0 for an empty series (and for one with
  no point left after dropping the missing ones) and plus infinity when the mean
  of the last \<open>window\<close> points is exactly 0; \<open>momentum_score\<close> returns 0 when
  there are fewer than two points or when the mean of its window is 0.  In each
  of these cases the result is that fixed value: nothing is raised and no
  undefined number is produced.
\<close>

theorem sentinel_values:
  "volatility_percent [] w = Fin 0
   \<and> (dropna s = [] \<longrightarrow> volatility_percent s w = Fin 0)
   \<and> (dropna s \<noteq> [] \<and> mean (iloc_from (- int w) (dropna s)) = 0
        \<longrightarrow> volatility_percent s w = PInf)
   \<and> (length (dropna s) < 2 \<longrightarrow> momentum_score s k = 0)
   \<and> (2 \<le> length (dropna s)
        \<and> mean (iloc_from (- (int (min k (length (dropna s) - 1)) + 1)) (dropna s)) = 0
        \<longrightarrow> momentum_score s k = 0)"
  by (simp add: volatility_percent_def momentum_score_def Let_def)

theorem sentinel_values_witness:
  "dropna [None] = []
   \<and> volatility_percent [None] 12 = Fin 0
   \<and> dropna [Some 2, Some (-2)] \<noteq> []
   \<and> mean (iloc_from (- int 12) (dropna [Some 2, Some (-2)])) = 0
   \<and> volatility_percent [Some 2, Some (-2)] 12 = PInf
   \<and> length (dropna [Some 7]) < 2
   \<and> momentum_score [Some 7] 3 = 0
   \<and> 2 \<le> length (dropna [Some 2, Some (-2)])
   \<and> momentum_score [Some 2, Some (-2)] 3 = 0"
  using sentinel_values [where s = "[None]" and w = 12 and k = 3]
    sentinel_values [where s = "[Some 2, Some (-2)]" and w = 12 and k = 3]
    sentinel_values [where s = "[Some 7]" and w = 12 and k = 3]
  by (simp add: iloc_from_def mean_def)

section \<open>Constant and non-decreasing series\<close>

text \<open>
  C8, as stated, fails for the constant series of zeros: its mean is 0, so the
  volatility is plus infinity, not 0.
\<close>

theorem constant_volatility_counterexample:
  "volatility_percent [Some 0, Some 0, Some 0] 12 \<noteq> Fin 0"
  by (simp add: volatility_percent_def iloc_from_def mean_def)

text \<open>
  C8, amended.  For every series whose points are all zero, with at least one
  point, the volatility is plus infinity; and for every series whose points
  never decrease the drawdown is exactly 0.  Nothing exact is stated for a
  constant series of a value other than zero: there the source divides the
  computed standard deviation by the computed mean, and the rounded mean of
  equal values need not be that value.
\<close>

theorem zero_series_and_monotone:
  "(dropna s \<noteq> [] \<and> (\<forall>v\<in>set (dropna s). v = 0) \<longrightarrow> volatility_percent s w = PInf)
   \<and> (sorted (dropna s) \<longrightarrow> peak_to_current_drawdown s = 0)"
proof (intro conjI impI)
  assume a: "dropna s \<noteq> [] \<and> (\<forall>v\<in>set (dropna s). v = 0)"
  let ?r = "iloc_from (- int w) (dropna s)"
  have ne: "?r \<noteq> []" using a by (simp add: iloc_from_window_nonempty)
  have allz: "\<forall>x\<in>set ?r. x = 0"
    using a set_iloc_from [of "- int w" "dropna s"] by blast
  have "mean ?r = 0" using ne allz by (rule mean_const)
  then show "volatility_percent s w = PInf"
    using a by (simp add: volatility_percent_def Let_def)
next
  assume srt: "sorted (dropna s)"
  show "peak_to_current_drawdown s = 0"
  proof (cases "dropna s = []")
    case True
    then show ?thesis by (simp add: peak_to_current_drawdown_def)
  next
    case False
    then have "list_max (dropna s) = last (dropna s)"
      using srt by (simp add: list_max_Max sorted_last_Max)
    then show ?thesis by (simp add: peak_to_current_drawdown_def Let_def)
  qed
qed

theorem zero_series_and_monotone_witness:
  "dropna [Some 0, None, Some 0] \<noteq> []
   \<and> set (dropna [Some 0, None, Some 0]) = {0}
   \<and> volatility_percent [Some 0, None, Some 0] 12 = PInf
   \<and> sorted (dropna [Some 3, None, Some 5, Some 5])
   \<and> peak_to_current_drawdown [Some 3, None, Some 5, Some 5] = 0"
  using zero_series_and_monotone [of "[Some 0, None, Some 0]" 12]
    zero_series_and_monotone [of "[Some 3, None, Some 5, Some 5]" 12]
  by simp

section \<open>Composite score\<close>

text \<open>
  C2.  The composite score is 0.4 times the volatility capped at 100, plus 0.3
  times the size of the negative part of the six-month momentum capped at 100,
  plus 0.3 times the drawdown capped at 100, the sum clamped to the interval from
  0 to 100.  It always lies in that interval, and a momentum that is not negative
  contributes nothing.
\<close>

theorem composite_risk_score_formula:
  "composite_risk_score s =
     max 0 (min 100 (0.4 * fmin (volatility_percent s 12) 100
                     + 0.3 * min \<bar>min (momentum_score s 6) 0\<bar> 100
                     + 0.3 * min (peak_to_current_drawdown s) 100))
   \<and> 0 \<le> composite_risk_score s \<and> composite_risk_score s \<le> 100
   \<and> (0 \<le> momentum_score s 6 \<longrightarrow>
        composite_risk_score s =
          max 0 (min 100 (0.4 * fmin (volatility_percent s 12) 100
                          + 0.3 * min (peak_to_current_drawdown s) 100)))"
  by (simp add: composite_risk_score_def Let_def min_def max_def)

theorem composite_risk_score_formula_witness:
  "0 \<le> momentum_score [Some 1, Some 3] 6
   \<and> momentum_score [Some 1, Some 3] 6 = 100
   \<and> volatility_percent [Some 1, Some 3] 12 = Fin 50
   \<and> peak_to_current_drawdown [Some 1, Some 3] = 0
   \<and> composite_risk_score [Some 1, Some 3] = 20"
  using composite_risk_score_formula [of "[Some 1, Some 3]"]
  by (simp add: volatility_percent_def iloc_from_def mean_def std0_def momentum_score_def
      lstsq_slope_def peak_to_current_drawdown_def Let_def power2_eq_square)

section \<open>Anti-rebound safety adjustment\<close>

text \<open>
  C1, as stated, fails in two ways.  When \<open>prev\<close> is negative the upper cap
  lies below the lower cap and the step returns the lower cap: for the series
  -10, -10, -10 the recent percent change is 0, the caps of the first step are
  -9.7 (down) and -10.1 (up), and the adjusted forecast is -9.7, above the upper
  cap.  When a value other than zero follows an observation that is exactly 0
  the recent percent change is infinite: for the series 0, 5, 0 it is plus
  infinity, \<open>prev\<close> is 0, both caps are NaN, the raw forecast -5 passes
  unchanged and no comparison with a cap holds.
\<close>

theorem stated_caps_counterexample:
  "ets_recursive_forecast drift_model True [Some (-10), Some (-10), Some (-10)] 1 12 True 3 =
     Inr \<lparr>predictions = [Num (-9.7)], lower = [Num (-9.7)], upper = [Num (-10.1)],
          fitted = [Num (-10), Num (-10), Num (-10)]\<rparr>
   \<and> recent_pct_of True [Some (-10), Some (-10), Some (-10)] = Num 0
   \<and> \<not> stated_caps 0 (-10) (-10) (-9.7)
   \<and> ets_recursive_forecast drift_model True [Some 0, Some 5, Some 0] 1 12 True 3 =
     Inr \<lparr>predictions = [Num (-5)], lower = [NaN], upper = [NaN],
          fitted = [Num 0, Num 5, Num 0]\<rparr>
   \<and> recent_pct_of True [Some 0, Some 5, Some 0] = PosInf
   \<and> x_mul (Num 0) (x_add (Num 1) (py_max (x_mul (x_abs PosInf) (Num 3)) (Num 0.01))) = NaN
   \<and> \<not> x_le (Num (-5)) NaN"
  by (simp add: ets_recursive_forecast_def Let_def drift_model_def residual_std_def std0_def mean_def
      recent_pct_of_def iloc_from_def pct_change_def x_mean_def stated_caps_def py_max_def py_min_def
      x_sub_def x_le_def unless_nan_def)

text \<open>
  C1, amended.  For every series with at least three points that are not
  missing, whose last point is present and whose recent percent change
  \<open>recentPct\<close> is finite, and every horizon for which the fit returns finite raw
  forecasts, the forecaster returns adjusted predictions, one for each raw
  forecast, computed in sequence from \<open>prev\<close> = the last actual and then the
  previous adjusted value, with \<open>allowed = max(|recentPct| * 3, 0.01)\<close>.  On a
  rebound step (\<open>recentPct < 0\<close> and raw forecast above \<open>prev\<close>) the adjusted
  value is at most \<open>prev * (1 + allowed)\<close>; on every other step it is at least
  \<open>prev * (1 - allowed * 3)\<close>, and at most \<open>prev * (1 + allowed)\<close> whenever
  \<open>prev\<close> is not negative.  When the last three points are present and the
  first two of them are not zero, \<open>recentPct\<close> is the mean of the two percent
  changes between them.
\<close>

theorem anti_rebound_caps:
  assumes len: "3 \<le> length (dropna s)"
    and lst: "last s = Some lastActual"
    and rp: "recent_pct_of pad s = Num recentPct"
    and raw: "forecast (model s (if us \<and> 2 * sp \<le> length s then Some sp else None)) steps
                = map Num raw"
  shows "(\<exists>r adjusted.
           ets_recursive_forecast model pad s steps sp us 3 = Inr r
           \<and> predictions r = map Num adjusted
           \<and> length adjusted = length raw
           \<and> (\<forall>i<length adjusted.
                 design_caps recentPct (prev_at lastActual adjusted i) (raw ! i) (adjusted ! i)))
    \<and> (\<forall>pre a b c. s = pre @ [Some a, Some b, Some c] \<and> a \<noteq> 0 \<and> b \<noteq> 0
          \<longrightarrow> recentPct = ((b / a - 1) + (c / b - 1)) / 2)"
proof -
  let ?fit = "model s (if us \<and> 2 * sp \<le> length s then Some sp else None)"
  let ?sd = "residual_std (fittedvalues ?fit) (map cell s)"
  let ?L = "\<lambda>p. unless_nan (x_sub (Num p) (x_mul (Num 1.96) ?sd)) (Num p)"
  let ?U = "\<lambda>p. unless_nan (x_add (Num p) (x_mul (Num 1.96) ?sd)) (Num p)"
  let ?triples = "map (\<lambda>p. (Num p, ?L p, ?U p)) raw"
  let ?adj = "safety_loop (Num recentPct) 3 (Num lastActual) ?triples"
  have ne: "s \<noteq> []" using len by auto
  have l3: "\<not> length (dropna s) < 3" using len by simp
  have res: "ets_recursive_forecast model pad s steps sp us 3 =
      Inr \<lparr>predictions = map (\<lambda>(p, l, u). p) ?adj,
           lower = map (\<lambda>(p, l, u). l) ?adj,
           upper = map (\<lambda>(p, l, u). u) ?adj,
           fitted = fittedvalues ?fit\<rparr>"
    using ne l3 by (simp add: ets_recursive_forecast_def Let_def rp raw lst comp_def)
  have p: "map (\<lambda>(p, l, u). p) ?adj = map Num (adjusted_finite recentPct lastActual raw)"
    by (rule safety_loop_finite)
  have mean3: "\<forall>pre a b c. s = pre @ [Some a, Some b, Some c] \<and> a \<noteq> 0 \<and> b \<noteq> 0
          \<longrightarrow> recentPct = ((b / a - 1) + (c / b - 1)) / 2"
    using rp by (auto simp: recent_pct_of_last_three)
  have "\<exists>r adjusted.
           ets_recursive_forecast model pad s steps sp us 3 = Inr r
           \<and> predictions r = map Num adjusted
           \<and> length adjusted = length raw
           \<and> (\<forall>i<length adjusted.
                 design_caps recentPct (prev_at lastActual adjusted i) (raw ! i) (adjusted ! i))"
  proof (intro exI conjI)
    show "ets_recursive_forecast model pad s steps sp us 3 =
      Inr \<lparr>predictions = map (\<lambda>(p, l, u). p) ?adj,
           lower = map (\<lambda>(p, l, u). l) ?adj,
           upper = map (\<lambda>(p, l, u). u) ?adj,
           fitted = fittedvalues ?fit\<rparr>" by (rule res)
    show "predictions \<lparr>predictions = map (\<lambda>(p, l, u). p) ?adj,
           lower = map (\<lambda>(p, l, u). l) ?adj,
           upper = map (\<lambda>(p, l, u). u) ?adj,
           fitted = fittedvalues ?fit\<rparr> = map Num (adjusted_finite recentPct lastActual raw)"
      using p by simp
    show "length (adjusted_finite recentPct lastActual raw) = length raw"
      by (rule length_adjusted_finite)
    show "\<forall>i<length (adjusted_finite recentPct lastActual raw).
      design_caps recentPct (prev_at lastActual (adjusted_finite recentPct lastActual raw) i)
        (raw ! i) (adjusted_finite recentPct lastActual raw ! i)"
      by (simp add: length_adjusted_finite adjusted_finite_caps)
  qed
  with mean3 show ?thesis by blast
qed

theorem anti_rebound_caps_witness:
  "3 \<le> length (dropna [Some 100, Some 50, Some 75])
   \<and> last [Some 100, Some 50, Some (75::real)] = Some 75
   \<and> recent_pct_of True [Some 100, Some 50, Some 75] = Num 0
   \<and> forecast (drift_model [Some 100, Some 50, Some 75] None) 2 = map Num [100, 125]
   \<and> ets_recursive_forecast drift_model True [Some 100, Some 50, Some 75] 2 12 True 3 =
       Inr \<lparr>predictions = [Num 75.75, Num 76.5075], lower = [Num 100, Num 125],
            upper = [Num 75.75, Num 76.5075], fitted = [Num 100, Num 50, Num 75]\<rparr>
   \<and> design_caps 0 75 100 75.75
   \<and> design_caps 0 75.75 125 76.5075"
proof -
  let ?s = "[Some 100, Some 50, Some (75::real)]"
  have h1: "3 \<le> length (dropna ?s)" by simp
  have h2: "last ?s = Some 75" by simp
  have h3: "recent_pct_of True ?s = Num 0"
    by (simp add: recent_pct_of_def iloc_from_def pct_change_def x_mean_def)
  have u2: "[0..<2] = [0, Suc 0]" by (simp add: numeral_2_eq_2)
  have fc: "forecast (drift_model ?s (if True \<and> 2 * 12 \<le> length ?s then Some 12 else None)) 2
      = map Num [100, 125]"
    by (simp add: drift_model_def u2)
  have fc': "forecast (drift_model ?s None) 2 = map Num [100, 125]"
    using fc by simp
  have res: "ets_recursive_forecast drift_model True ?s 2 12 True 3 =
       Inr \<lparr>predictions = [Num 75.75, Num 76.5075], lower = [Num 100, Num 125],
            upper = [Num 75.75, Num 76.5075], fitted = [Num 100, Num 50, Num 75]\<rparr>"
    by (simp add: ets_recursive_forecast_def Let_def drift_model_def residual_std_def std0_def
        mean_def recent_pct_of_def iloc_from_def pct_change_def x_mean_def u2 py_max_def py_min_def
        x_sub_def unless_nan_def)
  from anti_rebound_caps [where model = drift_model and us = True and sp = 12 and steps = 2,
      OF h1 h2 h3 fc]
  obtain r adjusted where
    r: "ets_recursive_forecast drift_model True ?s 2 12 True 3 = Inr r"
    and a: "predictions r = map Num adjusted"
    and c: "\<forall>i<length adjusted.
              design_caps 0 (prev_at 75 adjusted i) ([100, 125] ! i) (adjusted ! i)"
    by blast
  from r res a have "map Num adjusted = [Num 75.75, Num 76.5075]" by auto
  then have adj: "adjusted = [75.75, 76.5075]" by auto
  from c adj have call: "\<And>i. i < 2 \<Longrightarrow>
      design_caps 0 (prev_at 75 [75.75, 76.5075] i) ([100, 125] ! i) ([75.75, 76.5075] ! i)"
    by simp
  from call [of 0] have c0: "design_caps 0 75 100 75.75" by (simp add: prev_at_def)
  from call [of 1] have c1: "design_caps 0 75.75 125 76.5075" by (simp add: prev_at_def)
  show ?thesis using h1 h2 h3 fc' res c0 c1 by blast
qed

section \<open>Degenerate forecast\<close>

text \<open>
  C4.  With fewer than three points that are not missing the forecaster repeats
  \<open>s.iloc[-1]\<close>, the last entry of the series, whatever the fit would be.  The
  source's comment calls it the last observed value, but the entry is taken from
  the series before the missing points are dropped: for the series 5, NaN and
  horizon 1 the three outputs are NaN, not 5.
\<close>

theorem degenerate_forecast_trailing_missing:
  "ets_recursive_forecast model pad [Some 5, None] 1 sp us mgm =
     Inr \<lparr>predictions = [NaN], lower = [NaN], upper = [NaN], fitted = [Num 5, NaN]\<rparr>"
  by (simp add: ets_recursive_forecast_def Let_def)

section \<open>Consistency validator\<close>

text \<open>
  C3, as stated, fails for a payload that already carries a
  \<open>consistency_explanation\<close>: the validator copies the payload, so the field is
  present in the output although no rule fires.
\<close>

theorem stale_explanation_counterexample:
  "pl_consistency_explanation
     (validate_and_adjust (empty_payload\<lparr>pl_consistency_explanation := Some ''stale''\<rparr>))
     = Some ''stale''
   \<and> \<not> rule_a (empty_payload\<lparr>pl_consistency_explanation := Some ''stale''\<rparr>)
   \<and> \<not> rule_b (empty_payload\<lparr>pl_consistency_explanation := Some ''stale''\<rparr>)"
  by (simp add: validate_and_adjust_def explanation_of_def forecast_direction_def rule_a_def
      rule_b_def empty_payload_def Let_def)

text \<open>
  C3, amended.  For every payload that does not already carry a
  \<open>consistency_explanation\<close>, the output has the field if and only if at least
  one rule fires, where rule (a) fires when the recomputed direction is up and
  the risk label is High and rule (b) fires when the volatility is above 40 and
  the direction is up; the field is then the instability sentence, the
  volatility warning, or both joined by a single space, and it is absent when no
  rule fires.  In particular direction down with risk Low leaves it absent.
\<close>

theorem consistency_explanation_rules:
  assumes "pl_consistency_explanation p = None"
  shows "(pl_consistency_explanation (validate_and_adjust p) \<noteq> None \<longleftrightarrow> rule_a p \<or> rule_b p)
    \<and> pl_consistency_explanation (validate_and_adjust p) =
        (if rule_a p \<and> rule_b p then Some (instability_sentence @ '' '' @ volatility_sentence)
         else if rule_a p then Some instability_sentence
         else if rule_b p then Some volatility_sentence
         else None)
    \<and> (map_option fst (forecast_direction p) = Some ''down'' \<and> pl_risk_label p = Some ''Low''
         \<longrightarrow> pl_consistency_explanation (validate_and_adjust p) = None)"
proof -
  have down: "map_option fst (forecast_direction p) = Some ''down'' \<Longrightarrow> \<not> rule_a p \<and> \<not> rule_b p"
    by (auto simp: rule_a_def rule_b_def)
  show ?thesis
    using assms down
    by (simp add: validate_explanation explanation_of_rules)
qed

theorem consistency_explanation_rules_witness:
  "pl_consistency_explanation
      (empty_payload\<lparr>pl_predictions := [120], pl_last_actual := Some 100,
                     pl_volatility_percent := Some (Fin 50), pl_risk_label := Some ''High''\<rparr>) = None
   \<and> rule_a (empty_payload\<lparr>pl_predictions := [120], pl_last_actual := Some 100,
                     pl_volatility_percent := Some (Fin 50), pl_risk_label := Some ''High''\<rparr>)
   \<and> rule_b (empty_payload\<lparr>pl_predictions := [120], pl_last_actual := Some 100,
                     pl_volatility_percent := Some (Fin 50), pl_risk_label := Some ''High''\<rparr>)
   \<and> pl_consistency_explanation
        (validate_and_adjust
          (empty_payload\<lparr>pl_predictions := [120], pl_last_actual := Some 100,
                     pl_volatility_percent := Some (Fin 50), pl_risk_label := Some ''High''\<rparr>))
       = Some (instability_sentence @ '' '' @ volatility_sentence)
   \<and> pl_consistency_explanation
        (empty_payload\<lparr>pl_predictions := [80], pl_last_actual := Some 100,
                     pl_risk_label := Some ''Low''\<rparr>) = None
   \<and> map_option fst (forecast_direction
        (empty_payload\<lparr>pl_predictions := [80], pl_last_actual := Some 100,
                     pl_risk_label := Some ''Low''\<rparr>)) = Some ''down''
   \<and> pl_risk_label (empty_payload\<lparr>pl_predictions := [80], pl_last_actual := Some 100,
                     pl_risk_label := Some ''Low''\<rparr>) = Some ''Low''
   \<and> pl_consistency_explanation
        (validate_and_adjust
          (empty_payload\<lparr>pl_predictions := [80], pl_last_actual := Some 100,
                     pl_risk_label := Some ''Low''\<rparr>)) = None"
  using consistency_explanation_rules
          [of "empty_payload\<lparr>pl_predictions := [120], pl_last_actual := Some 100,
                     pl_volatility_percent := Some (Fin 50), pl_risk_label := Some ''High''\<rparr>"]
        consistency_explanation_rules
          [of "empty_payload\<lparr>pl_predictions := [80], pl_last_actual := Some 100,
                     pl_risk_label := Some ''Low''\<rparr>"]
  by (simp add: empty_payload_def rule_a_def rule_b_def forecast_direction_def Let_def)

text \<open>
  C10, as stated, fails in its last clause for a payload that already carries a
  \<open>consistency_explanation\<close>: with predictions 1 and last actual 0 no rule
  fires, but the copied field is still there.
\<close>

theorem zero_last_actual_counterexample:
  "pl_consistency_explanation
     (validate_and_adjust
        (empty_payload\<lparr>pl_predictions := [1], pl_last_actual := Some 0,
                       pl_consistency_explanation := Some ''kept''\<rparr>))
     = Some ''kept''"
  by (simp add: validate_and_adjust_def explanation_of_def forecast_direction_def
      empty_payload_def Let_def)

text \<open>
  C10, amended.  For every payload with a non-empty list of predictions and a
  last actual of exactly 0 the percent change is 0 and the direction is flat
  (nothing is divided by zero), neither contradiction rule fires, and the
  validator adds no explanation: the output's \<open>consistency_explanation\<close> is the
  input's, hence absent whenever the input has none.
\<close>

theorem zero_last_actual_guard:
  assumes "pl_predictions p \<noteq> []" and "pl_last_actual p = Some 0"
  shows "forecast_direction p = Some (''flat'', 0)
    \<and> pl_forecast_direction_pct (validate_and_adjust p) = Some 0
    \<and> \<not> rule_a p \<and> \<not> rule_b p
    \<and> explanation_of p = []
    \<and> pl_consistency_explanation (validate_and_adjust p) = pl_consistency_explanation p
    \<and> (pl_consistency_explanation p = None
         \<longrightarrow> pl_consistency_explanation (validate_and_adjust p) = None)"
proof -
  have d: "forecast_direction p = Some (''flat'', 0)"
    using assms by (simp add: forecast_direction_def Let_def)
  have e: "explanation_of p = []"
    using d by (simp add: explanation_of_def Let_def)
  show ?thesis
    using d e by (simp add: validate_explanation rule_a_def rule_b_def validate_and_adjust_def Let_def)
qed

theorem zero_last_actual_guard_witness:
  "pl_predictions (empty_payload\<lparr>pl_predictions := [3, 4], pl_last_actual := Some 0,
                     pl_volatility_percent := Some PInf, pl_risk_label := Some ''High''\<rparr>) \<noteq> []
   \<and> pl_last_actual (empty_payload\<lparr>pl_predictions := [3, 4], pl_last_actual := Some 0,
                     pl_volatility_percent := Some PInf, pl_risk_label := Some ''High''\<rparr>) = Some 0
   \<and> pl_consistency_explanation
        (empty_payload\<lparr>pl_predictions := [3, 4], pl_last_actual := Some 0,
                     pl_volatility_percent := Some PInf, pl_risk_label := Some ''High''\<rparr>) = None
   \<and> forecast_direction
        (empty_payload\<lparr>pl_predictions := [3, 4], pl_last_actual := Some 0,
                     pl_volatility_percent := Some PInf, pl_risk_label := Some ''High''\<rparr>)
       = Some (''flat'', 0)
   \<and> pl_consistency_explanation
        (validate_and_adjust
          (empty_payload\<lparr>pl_predictions := [3, 4], pl_last_actual := Some 0,
                     pl_volatility_percent := Some PInf, pl_risk_label := Some ''High''\<rparr>)) = None"
  using zero_last_actual_guard
          [of "empty_payload\<lparr>pl_predictions := [3, 4], pl_last_actual := Some 0,
                     pl_volatility_percent := Some PInf, pl_risk_label := Some ''High''\<rparr>"]
  by (simp add: empty_payload_def)

section \<open>Recommendation decision table\<close>

text \<open>
  C6.  The recommendation is chosen from the risk label and the short-term
  trend: High gives the crisis playbook whatever the trend; Medium gives cautious
  monitoring below -10%, volatility-aware growth above +10% and the moderate
  playbook otherwise; Low gives controlled decline below -10% and growth
  investment otherwise.  The -10% threshold is not the trend summary's -15%:
  between the two the summary is still neutral while the recommendation is
  already a decline playbook.
\<close>

theorem recommendation_table:
  "(pl_risk_label p = Some ''High'' \<longrightarrow> recommendation_section (build_insight p) = Crisis)
   \<and> (pl_risk_label p = Some ''Medium'' \<and> pl_recent_short_pct p = Some r \<and> r < - 0.10
        \<longrightarrow> recommendation_section (build_insight p) = CautiousMonitoring (forecast_pct_change p))
   \<and> (pl_risk_label p = Some ''Medium'' \<and> pl_recent_short_pct p = Some r \<and> r > 0.10
        \<longrightarrow> recommendation_section (build_insight p) = VolatileGrowth)
   \<and> (pl_risk_label p = Some ''Medium''
        \<and> (pl_recent_short_pct p = None
            \<or> (pl_recent_short_pct p = Some r \<and> - 0.10 \<le> r \<and> r \<le> 0.10))
        \<longrightarrow> recommendation_section (build_insight p) = ModerateObservability)
   \<and> (pl_risk_label p = Some ''Low'' \<and> pl_recent_short_pct p = Some r \<and> r < - 0.10
        \<longrightarrow> recommendation_section (build_insight p) = ControlledDecline (forecast_pct_change p))
   \<and> (pl_risk_label p = Some ''Low''
        \<and> (pl_recent_short_pct p = None \<or> (pl_recent_short_pct p = Some r \<and> - 0.10 \<le> r))
        \<longrightarrow> recommendation_section (build_insight p) = GrowthInvestment)
   \<and> (pl_recent_short_pct p = Some r \<and> pl_recent_long_pct p \<noteq> None \<and> pl_predictions p \<noteq> []
        \<and> - 0.15 \<le> r \<and> r < - 0.10
        \<longrightarrow> (\<exists>c. trend_section (build_insight p) = TrendNeutral c)
            \<and> (pl_risk_label p = Some ''Medium''
                 \<longrightarrow> recommendation_section (build_insight p)
                      = CautiousMonitoring (forecast_pct_change p))
            \<and> (pl_risk_label p = Some ''Low''
                 \<longrightarrow> recommendation_section (build_insight p)
                      = ControlledDecline (forecast_pct_change p)))"
proof (cases "pl_recent_short_pct p")
  case None
  then show ?thesis by (simp add: recommendation_section_eq)
next
  case (Some a)
  have "- 0.15 \<le> a \<and> a < - 0.10 \<and> pl_recent_long_pct p \<noteq> None \<and> pl_predictions p \<noteq> []
        \<longrightarrow> (\<exists>c. trend_section (build_insight p) = TrendNeutral c)"
    using trend_section_neutral [OF Some, of ] by auto
  with Some show ?thesis by (auto simp: recommendation_section_eq)
qed

theorem recommendation_table_witness:
  "recommendation_section
      (build_insight (empty_payload\<lparr>pl_risk_label := Some ''High'',
                                     pl_recent_short_pct := Some (1 / 2)\<rparr>)) = Crisis
   \<and> recommendation_section
        (build_insight (empty_payload\<lparr>pl_predictions := [90], pl_last_actual := Some 100,
                                       pl_risk_label := Some ''Medium'',
                                       pl_recent_short_pct := Some (- (12 / 100)),
                                       pl_recent_long_pct := Some (- (1 / 5))\<rparr>))
       = CautiousMonitoring (- 10)
   \<and> trend_section
        (build_insight (empty_payload\<lparr>pl_predictions := [90], pl_last_actual := Some 100,
                                       pl_risk_label := Some ''Medium'',
                                       pl_recent_short_pct := Some (- (12 / 100)),
                                       pl_recent_long_pct := Some (- (1 / 5))\<rparr>))
       = TrendNeutral (- 10)
   \<and> recommendation_section
        (build_insight (empty_payload\<lparr>pl_risk_label := Some ''Medium'',
                                       pl_recent_short_pct := Some (1 / 5)\<rparr>)) = VolatileGrowth
   \<and> recommendation_section
        (build_insight (empty_payload\<lparr>pl_risk_label := Some ''Medium'',
                                       pl_recent_short_pct := Some (1 / 20)\<rparr>))
       = ModerateObservability
   \<and> recommendation_section
        (build_insight (empty_payload\<lparr>pl_predictions := [90], pl_last_actual := Some 100,
                                       pl_risk_label := Some ''Low'',
                                       pl_recent_short_pct := Some (- (12 / 100)),
                                       pl_recent_long_pct := Some (- (1 / 5))\<rparr>))
       = ControlledDecline (- 10)
   \<and> recommendation_section
        (build_insight (empty_payload\<lparr>pl_risk_label := Some ''Low'',
                                       pl_recent_short_pct := Some (3 / 10)\<rparr>))
       = GrowthInvestment"
  using recommendation_table
          [of "empty_payload\<lparr>pl_risk_label := Some ''High'',
                             pl_recent_short_pct := Some (1 / 2)\<rparr>" "1 / 2"]
        recommendation_table
          [of "empty_payload\<lparr>pl_predictions := [90], pl_last_actual := Some 100,
                             pl_risk_label := Some ''Medium'',
                             pl_recent_short_pct := Some (- (12 / 100)),
                             pl_recent_long_pct := Some (- (1 / 5))\<rparr>" "- (12 / 100)"]
        recommendation_table
          [of "empty_payload\<lparr>pl_risk_label := Some ''Medium'',
                             pl_recent_short_pct := Some (1 / 5)\<rparr>" "1 / 5"]
        recommendation_table
          [of "empty_payload\<lparr>pl_risk_label := Some ''Medium'',
                             pl_recent_short_pct := Some (1 / 20)\<rparr>" "1 / 20"]
        recommendation_table
          [of "empty_payload\<lparr>pl_predictions := [90], pl_last_actual := Some 100,
                             pl_risk_label := Some ''Low'',
                             pl_recent_short_pct := Some (- (12 / 100)),
                             pl_recent_long_pct := Some (- (1 / 5))\<rparr>" "- (12 / 100)"]
        recommendation_table
          [of "empty_payload\<lparr>pl_risk_label := Some ''Low'',
                             pl_recent_short_pct := Some (3 / 10)\<rparr>" "3 / 10"]
  by (simp add: empty_payload_def forecast_pct_change_def avg_forecast_of_def build_insight_def
      Let_def)

section \<open>Normalization\<close>

text \<open>
  C9.  Normalization is idempotent: for every normalized monthly series (unique
  periods, month-end dates, ascending order), preparing its tabular form gives
  the same series back, periods and values in the same order.
\<close>

theorem prepare_series_idempotent:
  assumes "normalized xs"
  shows "prepare_series (to_frame xs) ''date'' ''revenue'' = Inr xs"
proof -
  from assms have dist: "distinct (map fst xs)"
    and me: "list_all (\<lambda>(d, v). month_end d = d) xs"
    and srt: "sorted (map (\<lambda>(d, v). date_key d) xs)"
    by (simp_all add: normalized_def)
  have stamped: "map (\<lambda>(d, v). (month_end d, v)) xs = xs" using me by (rule month_end_fixed)
  have "map (\<lambda>(d, v). date_key d) xs = map date_key (map fst xs)"
    by (simp add: case_prod_unfold comp_def)
  with srt have k: "sorted (map date_key (map fst xs))" by simp
  have r: "remdups (map fst xs) = map fst xs" using dist by (rule distinct_remdups_id)
  have keys: "sort_key date_key (remdups (map fst xs)) = map fst xs"
    unfolding r using k by (rule sort_key_id_if_sorted)
  have final: "sort_key (\<lambda>(d, v). date_key d) xs = xs"
    using srt by (rule sort_key_id_if_sorted)
  show ?thesis
    using stamped keys group_sum_distinct [OF dist] final
    by (simp add: prepare_series_def to_frame_def Let_def)
qed

theorem prepare_series_idempotent_witness:
  "normalized [(Date 2023 12 31, 10), (Date 2024 1 31, 20), (Date 2024 2 29, 5)]
   \<and> prepare_series (to_frame [(Date 2023 12 31, 10), (Date 2024 1 31, 20), (Date 2024 2 29, 5)])
        ''date'' ''revenue''
       = Inr [(Date 2023 12 31, 10), (Date 2024 1 31, 20), (Date 2024 2 29, 5)]"
proof -
  have n: "normalized [(Date 2023 12 31, 10), (Date 2024 1 31, 20), (Date 2024 2 29, 5)]"
    by (simp add: normalized_def month_end_def days_in_month_def leap_year_def date_key_def)
  from prepare_series_idempotent [OF n] n show ?thesis by simp
qed

end
